theory Spec2Isabelle
  imports Complex_Main "HOL-Library.Multiset"
begin

section \<open>Data model of \<open>backend/server.py\<close>\<close>

text \<open>
  Python strings are modelled as \<open>string\<close>, one \<open>char\<close> per code point below 256.
  A \<open>datetime\<close> is a natural number (microseconds on the clock of \<open>datetime.utcnow\<close>).
\<close>

record measurements =
  height :: string
  weight :: string
  chest :: string
  waist :: string
  hips :: string

text \<open>\<open>class TryOnRequest\<close>: every field is a \<open>str\<close>; \<open>style\<close> defaults to \<open>"casual"\<close>
  when the body leaves it out.\<close>

record tryon_request =
  rq_name :: string
  rq_user_image :: string
  rq_clothing_image :: string
  rq_measurements :: measurements
  rq_style :: string

text \<open>\<open>class TryOnResult\<close>; the fields \<open>id\<close>, \<open>name\<close>, \<open>measurements\<close> and \<open>style\<close>
  carry the prefix \<open>tr_\<close>.\<close>

record tryon_result =
  tr_id :: string
  tr_name :: string
  user_image_url :: "string option"
  clothing_image_url :: "string option"
  tryon_image :: "string option"
  tr_measurements :: measurements
  tr_style :: string
  feedback :: "string option"
  created_at :: nat
  status :: string

text \<open>\<open>class StatusCheck\<close>.\<close>

record status_check =
  sc_id :: string
  client_name :: string
  timestamp :: nat

text \<open>The values the handlers put into the dictionaries they return.\<close>

datatype py_value =
  PyNone
  | PyBool bool
  | PyStr string
  | PyDatetime nat
  | PyDict "(string \<times> py_value) list"

definition py_optional :: "string option \<Rightarrow> py_value" where
  "py_optional v = (case v of None \<Rightarrow> PyNone | Some s \<Rightarrow> PyStr s)"

text \<open>\<open>Measurements.dict()\<close> and \<open>TryOnResult.dict()\<close>.\<close>

definition measurements_dict :: "measurements \<Rightarrow> (string \<times> py_value) list" where
  "measurements_dict m =
     [(''height'', PyStr (height m)), (''weight'', PyStr (weight m)),
      (''chest'', PyStr (chest m)), (''waist'', PyStr (waist m)),
      (''hips'', PyStr (hips m))]"

definition tryon_result_dict :: "tryon_result \<Rightarrow> (string \<times> py_value) list" where
  "tryon_result_dict r =
     [(''id'', PyStr (tr_id r)), (''name'', PyStr (tr_name r)),
      (''user_image_url'', py_optional (user_image_url r)),
      (''clothing_image_url'', py_optional (clothing_image_url r)),
      (''tryon_image'', py_optional (tryon_image r)),
      (''measurements'', PyDict (measurements_dict (tr_measurements r))),
      (''style'', PyStr (tr_style r)),
      (''feedback'', py_optional (feedback r)),
      (''created_at'', PyDatetime (created_at r)),
      (''status'', PyStr (status r))]"

text \<open>
  The error responses: \<open>HTTPException(status_code, detail)\<close>, raised by the handlers, and
  the response of the framework to a request body that does not make a \<open>TryOnRequest\<close>,
  which lists the places of the fields that are missing.
\<close>

datatype http_error = HTTPException nat string | RequestValidationError "string list list"

fun status_code :: "http_error \<Rightarrow> nat" where
  "status_code (HTTPException code detail) = code"
| "status_code (RequestValidationError places) = 422"

text \<open>
  The JSON body of \<open>POST /api/tryon/generate\<close> before \<open>TryOnRequest\<close> is built from it: any
  of its keys may be missing.
\<close>

record measurements_body =
  b_height :: "string option"
  b_weight :: "string option"
  b_chest :: "string option"
  b_waist :: "string option"
  b_hips :: "string option"

record tryon_body =
  b_name :: "string option"
  b_user_image :: "string option"
  b_clothing_image :: "string option"
  b_measurements :: "measurements_body option"
  b_style :: "string option"

section \<open>The outside world\<close>

text \<open>
  The arguments of \<open>fal_client.submit_async\<close>; \<open>guidance_scale\<close> is the literal \<open>3.5\<close>.
\<close>

record fal_arguments =
  prompt :: string
  image_size :: string
  num_inference_steps :: nat
  guidance_scale :: rat
  num_images :: nat

text \<open>
  What \<open>await handler.get()\<close> gives back, as far as the code looks into it. An entry of
  \<open>images\<close> is \<open>null\<close>, or a dictionary without the key \<open>url\<close>, or one whose \<open>url\<close> is
  \<open>null\<close> (\<open>Url None\<close>) or a string. The result is \<open>None\<close> (or another falsy value), or has no
  key \<open>images\<close>, or has \<open>images\<close> \<open>null\<close>, or has a list there.
\<close>

datatype fal_image = NullImage | NoUrl | Url "string option"

datatype fal_result = FalFalsy | NoImages | NullImages | Images "fal_image list"

text \<open>\<open>submit_async\<close> followed by \<open>handler.get()\<close> either raises (with the text of
  \<open>str(e)\<close>) or returns a result.\<close>

datatype fal_outcome = FalRaises string | FalReturns fal_result

text \<open>A decoded \<open>PIL.Image\<close>: only its existence is ever looked at; the size stands for it.\<close>

datatype pil_image = PILImage nat nat

text \<open>
  Everything one call of a handler takes from outside the program: the value of
  \<open>uuid.uuid4()\<close>, the clock, \<open>base64.b64decode\<close> followed by \<open>Image.open\<close> (\<open>None\<close> when
  either raises), the image provider, and whether the driver of the document store raises
  on an insert, an update or a query (with the text of the exception).
\<close>

record env =
  uuid4 :: string
  utcnow :: nat
  image_open :: "string \<Rightarrow> pil_image option"
  fal_submit :: "string \<Rightarrow> fal_arguments \<Rightarrow> fal_outcome"
  insert_raises :: "string option"
  update_raises :: "string option"
  find_raises :: "string option"

text \<open>The two collections of the database \<open>db\<close>, each in insertion order.\<close>

record database =
  tryon_results :: "tryon_result list"
  status_checks :: "status_check list"

text \<open>
  The state the handlers run in: the database, and two logs that no handler reads:
  \<open>history\<close>, the database as it stands after each write that went through, oldest first,
  and \<open>fal_calls\<close>, each request sent to the image provider.
\<close>

record world =
  db :: database
  history :: "database list"
  fal_calls :: "(string \<times> fal_arguments) list"

definition commit :: "database \<Rightarrow> world \<Rightarrow> world" where
  "commit d w = w\<lparr>db := d, history := history w @ [d]\<rparr>"

section \<open>The document store\<close>

text \<open>\<open>db.tryon_results.insert_one(doc)\<close>: the document goes to the end of the collection.\<close>

definition insert_one :: "env \<Rightarrow> tryon_result \<Rightarrow> world \<Rightarrow> (string + unit) \<times> world" where
  "insert_one e doc w =
     (case insert_raises e of
        Some msg \<Rightarrow> (Inl msg, w)
      | None \<Rightarrow> (Inr (), commit ((db w)\<lparr>tryon_results := tryon_results (db w) @ [doc]\<rparr>) w))"

text \<open>\<open>update_one({"id": i}, {"$set": ...})\<close> changes the first document whose \<open>id\<close> is
  \<open>i\<close>, and nothing when there is none.\<close>

fun set_first :: "string \<Rightarrow> (tryon_result \<Rightarrow> tryon_result) \<Rightarrow> tryon_result list \<Rightarrow> tryon_result list" where
  "set_first i f [] = []"
| "set_first i f (d # ds) = (if tr_id d = i then f d # ds else d # set_first i f ds)"

definition update_one ::
  "env \<Rightarrow> string \<Rightarrow> (tryon_result \<Rightarrow> tryon_result) \<Rightarrow> world \<Rightarrow> (string + unit) \<times> world" where
  "update_one e i f w =
     (case update_raises e of
        Some msg \<Rightarrow> (Inl msg, w)
      | None \<Rightarrow> (Inr (), commit ((db w)\<lparr>tryon_results := set_first i f (tryon_results (db w))\<rparr>) w))"

text \<open>\<open>find_one({"id": i})\<close>: the first document whose \<open>id\<close> is \<open>i\<close>, or \<open>None\<close>.\<close>

definition find_by_id :: "string \<Rightarrow> tryon_result list \<Rightarrow> tryon_result option" where
  "find_by_id i ds = find (\<lambda>d. tr_id d = i) ds"

definition find_one :: "env \<Rightarrow> string \<Rightarrow> world \<Rightarrow> string + tryon_result option" where
  "find_one e i w =
     (case find_raises e of
        Some msg \<Rightarrow> Inl msg
      | None \<Rightarrow> Inr (find_by_id i (tryon_results (db w))))"

text \<open>\<open>find().sort("created_at", -1).to_list(n)\<close>: newest first, at most \<open>n\<close> documents.\<close>

definition find_sorted :: "env \<Rightarrow> nat \<Rightarrow> world \<Rightarrow> string + tryon_result list" where
  "find_sorted e n w =
     (case find_raises e of
        Some msg \<Rightarrow> Inl msg
      | None \<Rightarrow> Inr (take n (rev (sort_key created_at (tryon_results (db w))))))"

text \<open>\<open>db.status_checks.insert_one(doc)\<close> and \<open>db.status_checks.find().to_list(n)\<close>.\<close>

definition insert_status :: "env \<Rightarrow> status_check \<Rightarrow> world \<Rightarrow> (string + unit) \<times> world" where
  "insert_status e doc w =
     (case insert_raises e of
        Some msg \<Rightarrow> (Inl msg, w)
      | None \<Rightarrow> (Inr (), commit ((db w)\<lparr>status_checks := status_checks (db w) @ [doc]\<rparr>) w))"

definition find_status :: "env \<Rightarrow> nat \<Rightarrow> world \<Rightarrow> string + status_check list" where
  "find_status e n w =
     (case find_raises e of
        Some msg \<Rightarrow> Inl msg
      | None \<Rightarrow> Inr (take n (status_checks (db w))))"

section \<open>String operations of Python\<close>

text \<open>\<open>str.isspace\<close> on one character below 256, and \<open>str.strip()\<close>.\<close>

definition isspace :: "char \<Rightarrow> bool" where
  "isspace c \<longleftrightarrow>
     List.member
       [CHR 0x09, CHR 0x0A, CHR 0x0B, CHR 0x0C, CHR 0x0D, CHR 0x1C, CHR 0x1D, CHR 0x1E,
        CHR 0x1F, CHR 0x20, CHR 0x85, CHR 0xA0] c"

definition strip :: "string \<Rightarrow> string" where
  "strip s = rev (dropWhile isspace (rev (dropWhile isspace s)))"

definition startswith :: "string \<Rightarrow> string \<Rightarrow> bool" where
  "startswith s p \<longleftrightarrow> take (length p) s = p"

text \<open>\<open>s.split(c)\<close> for a separator of one character.\<close>

fun split_chr :: "char \<Rightarrow> string \<Rightarrow> string list" where
  "split_chr c [] = [[]]"
| "split_chr c (x # xs) =
     (if x = c then [] # split_chr c xs
      else (case split_chr c xs of [] \<Rightarrow> [[x]] | y # ys \<Rightarrow> (x # y) # ys))"

section \<open>Utility functions\<close>

text \<open>
  \<open>base64_to_pil\<close>: a data URL loses everything up to its first comma (and what follows a
  second one); \<open>split(',')[1]\<close> raises when there is no comma, and every exception is turned
  into \<open>None\<close>.
\<close>

definition base64_to_pil :: "env \<Rightarrow> string \<Rightarrow> pil_image option" where
  "base64_to_pil e base64_str =
     (if startswith base64_str ''data:image'' then
        (case split_chr (CHR '','') base64_str of
           _ # payload # _ \<Rightarrow> image_open e payload
         | _ \<Rightarrow> None)
      else image_open e base64_str)"

text \<open>The prompt of \<open>generate_virtual_tryon\<close>, an f-string over nine lines of source.\<close>

definition line_break :: string where
  "line_break = CHR 0x0A # ''        ''"

definition tryon_prompt :: "measurements \<Rightarrow> string \<Rightarrow> string" where
  "tryon_prompt m style0 =
     line_break @ ''Create a photorealistic virtual try-on image showing a person wearing the provided clothing item. ''
     @ line_break @ ''The person should match these measurements: height '' @ height m @ ''cm, weight ''
       @ weight m @ ''kg, ''
     @ line_break @ ''chest '' @ chest m @ ''cm, waist '' @ waist m @ ''cm, hips '' @ hips m @ ''cm.''
     @ line_break @ ''Style preference: '' @ style0 @ ''. ''
     @ line_break @ ''The clothing should fit naturally and realistically on the person''
       @ [CHR 0x27] @ ''s body. ''
     @ line_break @ ''Maintain the original person'' @ [CHR 0x27]
       @ ''s appearance and facial features while showing them wearing the new outfit.''
     @ line_break @ ''The final image should look natural, well-lit, and professional.''
     @ line_break"

definition tryon_arguments :: "measurements \<Rightarrow> string \<Rightarrow> fal_arguments" where
  "tryon_arguments m style0 =
     \<lparr>prompt = tryon_prompt m style0, image_size = ''portrait'', num_inference_steps = 28,
      guidance_scale = 7 / 2, num_images = 1\<rparr>"

text \<open>\<open>fal_client.submit_async(app, arguments=...)\<close> and \<open>handler.get()\<close>.\<close>

definition fal_run :: "env \<Rightarrow> string \<Rightarrow> fal_arguments \<Rightarrow> world \<Rightarrow> fal_outcome \<times> world" where
  "fal_run e app args w = (fal_submit e app args, w\<lparr>fal_calls := fal_calls w @ [(app, args)]\<rparr>)"

text \<open>The dictionary \<open>generate_virtual_tryon\<close> returns: \<open>success\<close> with \<open>tryon_image\<close> and
  \<open>feedback\<close>, or no success with \<open>error\<close>.\<close>

datatype generation_result = GenSuccess "string option" string | GenFailure string

text \<open>
  What the body of \<open>generate_virtual_tryon\<close> makes of the provider's result: the value
  under \<open>url\<close> of the first image, taken as it is, or the text of the exception raised:
  by the code itself when there is no image, by \<open>len\<close> of \<open>null\<close>, by subscripting \<open>null\<close>,
  or for the missing key.
\<close>

definition first_image_url :: "fal_result \<Rightarrow> string + string option" where
  "first_image_url result =
     (case result of
        FalFalsy \<Rightarrow> Inl ''No images generated by FAL.AI''
      | NoImages \<Rightarrow> Inl ''No images generated by FAL.AI''
      | NullImages \<Rightarrow>
          Inl (''object of type '' @ [CHR 0x27] @ ''NoneType'' @ [CHR 0x27] @ '' has no len()'')
      | Images [] \<Rightarrow> Inl ''No images generated by FAL.AI''
      | Images (NullImage # _) \<Rightarrow>
          Inl ([CHR 0x27] @ ''NoneType'' @ [CHR 0x27] @ '' object is not subscriptable'')
      | Images (NoUrl # _) \<Rightarrow> Inl ([CHR 0x27] @ ''url'' @ [CHR 0x27])
      | Images (Url generated_image_url # _) \<Rightarrow> Inr generated_image_url)"

definition generate_virtual_tryon ::
  "env \<Rightarrow> string \<Rightarrow> string \<Rightarrow> measurements \<Rightarrow> string \<Rightarrow> string \<Rightarrow> world
     \<Rightarrow> generation_result \<times> world" where
  "generate_virtual_tryon e user_image_b64 clothing_image_b64 m style0 name0 w =
     (let user_image = base64_to_pil e user_image_b64;
          clothing_image = base64_to_pil e clothing_image_b64
      in if user_image = None \<or> clothing_image = None
         then (GenFailure ''Failed to process uploaded images'', w)
         else
           (case fal_run e ''fal-ai/flux/dev'' (tryon_arguments m style0) w of
              (FalRaises msg, w') \<Rightarrow> (GenFailure msg, w')
            | (FalReturns result, w') \<Rightarrow>
                (case first_image_url result of
                   Inr generated_image_url \<Rightarrow>
                     (GenSuccess generated_image_url
                        (''Virtual try-on generated successfully for '' @ style0 @ '' style!''), w')
                 | Inl msg \<Rightarrow> (GenFailure msg, w'))))"

section \<open>API routes\<close>

text \<open>\<open>GET /api/\<close>.\<close>

definition root_route :: "(string \<times> py_value) list" where
  "root_route = [(''message'', PyStr ''Virtual Try-On API is running!'')]"

text \<open>\<open>POST /api/status\<close>; the handler catches nothing, so an exception of the driver
  reaches the framework, which answers 500.\<close>

definition create_status_check :: "env \<Rightarrow> string \<Rightarrow> world \<Rightarrow> (http_error + status_check) \<times> world" where
  "create_status_check e input_client_name w =
     (let status_obj = \<lparr>sc_id = uuid4 e, client_name = input_client_name, timestamp = utcnow e\<rparr>
      in case insert_status e status_obj w of
           (Inl msg, w') \<Rightarrow> (Inl (HTTPException 500 ''Internal Server Error''), w')
         | (Inr u, w') \<Rightarrow> (Inr status_obj, w'))"

text \<open>\<open>GET /api/status\<close>.\<close>

definition get_status_checks :: "env \<Rightarrow> world \<Rightarrow> http_error + status_check list" where
  "get_status_checks e w =
     (case find_status e 1000 w of
        Inl msg \<Rightarrow> Inl (HTTPException 500 ''Internal Server Error'')
      | Inr docs \<Rightarrow> Inr docs)"

text \<open>
  The constructor \<open>TryOnResult(name=..., measurements=..., style=..., status=...)\<close> as
  \<open>generate_tryon\<close> calls it: \<open>id\<close> and \<open>created_at\<close> come from their default
  factories, the optional fields are \<open>None\<close>.
\<close>

definition TryOnResult :: "env \<Rightarrow> string \<Rightarrow> measurements \<Rightarrow> string \<Rightarrow> string \<Rightarrow> tryon_result" where
  "TryOnResult e name0 m style0 status0 =
     \<lparr>tr_id = uuid4 e, tr_name = name0, user_image_url = None, clothing_image_url = None,
      tryon_image = None, tr_measurements = m, tr_style = style0, feedback = None,
      created_at = utcnow e, status = status0\<rparr>"

text \<open>
  \<open>POST /api/tryon/generate\<close>. An \<open>HTTPException\<close> raised in the body passes through the
  handler's \<open>except HTTPException: raise\<close>; any other exception (here: of the store's driver)
  becomes the 500 of its last \<open>except\<close>.
\<close>

definition internal_error :: "string \<Rightarrow> http_error" where
  "internal_error msg = HTTPException 500 (''Internal server error: '' @ msg)"

definition generate_tryon ::
  "env \<Rightarrow> tryon_request \<Rightarrow> world \<Rightarrow> (http_error + (string \<times> py_value) list) \<times> world" where
  "generate_tryon e request w =
     (if rq_user_image request = [] then (Inl (HTTPException 400 ''User image is required''), w)
      else if rq_clothing_image request = []
        then (Inl (HTTPException 400 ''Clothing image is required''), w)
      else if strip (rq_name request) = [] then (Inl (HTTPException 400 ''Name is required''), w)
      else
        (let tryon_result =
               TryOnResult e (rq_name request) (rq_measurements request) (rq_style request)
                 ''processing''
         in case insert_one e tryon_result w of
              (Inl msg, w1) \<Rightarrow> (Inl (internal_error msg), w1)
            | (Inr u, w1) \<Rightarrow>
                (case generate_virtual_tryon e (rq_user_image request) (rq_clothing_image request)
                        (rq_measurements request) (rq_style request) (rq_name request) w1 of
                   (GenSuccess img fb, w2) \<Rightarrow>
                     (let tryon_result' =
                            tryon_result\<lparr>tryon_image := img, feedback := Some fb,
                                         status := ''completed''\<rparr>
                      in case update_one e (tr_id tryon_result') (\<lambda>d. tryon_result') w2 of
                           (Inl msg, w3) \<Rightarrow> (Inl (internal_error msg), w3)
                         | (Inr u', w3) \<Rightarrow>
                             (Inr [(''success'', PyBool True),
                                   (''id'', PyStr (tr_id tryon_result')),
                                   (''tryon_image'', py_optional (tryon_image tryon_result')),
                                   (''feedback'', py_optional (feedback tryon_result')),
                                   (''status'', PyStr (status tryon_result'))], w3))
                 | (GenFailure err, w2) \<Rightarrow>
                     (case update_one e (tr_id tryon_result) (\<lambda>d. d\<lparr>status := ''failed''\<rparr>) w2 of
                        (Inl msg, w3) \<Rightarrow> (Inl (internal_error msg), w3)
                      | (Inr u', w3) \<Rightarrow>
                          (Inl (HTTPException 500 (''Failed to generate try-on: '' @ err)), w3)))))"

text \<open>
  The route as the framework runs it. \<open>TryOnRequest\<close> is built from the body first: \<open>name\<close>,
  \<open>user_image\<close>, \<open>clothing_image\<close>, \<open>measurements\<close> and the five fields of \<open>Measurements\<close> have
  no default, \<open>style\<close> defaults to \<open>"casual"\<close>. When a field without default is missing the
  handler is not called: the answer has status 422 and names the places of the missing
  fields; \<open>server.py\<close> installs no handler of its own for that.
\<close>

definition missing_measurements :: "measurements_body \<Rightarrow> string list list" where
  "missing_measurements mb =
     (if b_height mb = None then [[''body'', ''measurements'', ''height'']] else [])
     @ (if b_weight mb = None then [[''body'', ''measurements'', ''weight'']] else [])
     @ (if b_chest mb = None then [[''body'', ''measurements'', ''chest'']] else [])
     @ (if b_waist mb = None then [[''body'', ''measurements'', ''waist'']] else [])
     @ (if b_hips mb = None then [[''body'', ''measurements'', ''hips'']] else [])"

definition missing_fields :: "tryon_body \<Rightarrow> string list list" where
  "missing_fields body =
     (if b_name body = None then [[''body'', ''name'']] else [])
     @ (if b_user_image body = None then [[''body'', ''user_image'']] else [])
     @ (if b_clothing_image body = None then [[''body'', ''clothing_image'']] else [])
     @ (case b_measurements body of
          None \<Rightarrow> [[''body'', ''measurements'']]
        | Some mb \<Rightarrow> missing_measurements mb)"

definition Measurements :: "measurements_body \<Rightarrow> measurements option" where
  "Measurements mb =
     (case (b_height mb, b_weight mb, b_chest mb, b_waist mb, b_hips mb) of
        (Some h, Some w, Some c, Some wa, Some hi) \<Rightarrow>
          Some \<lparr>height = h, weight = w, chest = c, waist = wa, hips = hi\<rparr>
      | _ \<Rightarrow> None)"

definition TryOnRequest :: "tryon_body \<Rightarrow> string list list + tryon_request" where
  "TryOnRequest body =
     (case (b_name body, b_user_image body, b_clothing_image body,
            Option.bind (b_measurements body) Measurements) of
        (Some n, Some u, Some c, Some m) \<Rightarrow>
          Inr \<lparr>rq_name = n, rq_user_image = u, rq_clothing_image = c, rq_measurements = m,
               rq_style = (case b_style body of None \<Rightarrow> ''casual'' | Some s \<Rightarrow> s)\<rparr>
      | _ \<Rightarrow> Inl (missing_fields body))"

definition post_tryon_generate ::
  "env \<Rightarrow> tryon_body \<Rightarrow> world \<Rightarrow> (http_error + (string \<times> py_value) list) \<times> world" where
  "post_tryon_generate e body w =
     (case TryOnRequest body of
        Inl places \<Rightarrow> (Inl (RequestValidationError places), w)
      | Inr request \<Rightarrow> generate_tryon e request w)"

text \<open>\<open>GET /api/tryon/{tryon_id}\<close>; the stored documents are \<open>TryOnResult\<close> dictionaries, so
  \<open>TryOnResult(**result)\<close> gives the record back.\<close>

definition get_tryon_result :: "env \<Rightarrow> string \<Rightarrow> world \<Rightarrow> http_error + tryon_result" where
  "get_tryon_result e tryon_id w =
     (case find_one e tryon_id w of
        Inl msg \<Rightarrow> Inl (HTTPException 500 ''Internal server error'')
      | Inr None \<Rightarrow> Inl (HTTPException 404 ''Try-on result not found'')
      | Inr (Some result) \<Rightarrow> Inr result)"

text \<open>\<open>GET /api/tryon/{tryon_id}/base64\<close>; \<open>not result.get('tryon_image')\<close> holds for
  \<open>None\<close> and for the empty string.\<close>

definition get_tryon_image_base64 ::
  "env \<Rightarrow> string \<Rightarrow> world \<Rightarrow> http_error + (string \<times> py_value) list" where
  "get_tryon_image_base64 e tryon_id w =
     (case find_one e tryon_id w of
        Inl msg \<Rightarrow> Inl (HTTPException 500 ''Internal server error'')
      | Inr None \<Rightarrow> Inl (HTTPException 404 ''Try-on result not found'')
      | Inr (Some result) \<Rightarrow>
          (if tryon_image result = None \<or> tryon_image result = Some []
           then Inl (HTTPException 404 ''Try-on image not available'')
           else Inr [(''success'', PyBool True),
                     (''image_base64'', py_optional (tryon_image result)),
                     (''id'', PyStr tryon_id)]))"

text \<open>\<open>GET /api/tryons\<close>.\<close>

definition get_all_tryons :: "env \<Rightarrow> world \<Rightarrow> http_error + tryon_result list" where
  "get_all_tryons e w =
     (case find_sorted e 100 w of
        Inl msg \<Rightarrow> Inl (HTTPException 500 ''Internal server error'')
      | Inr results \<Rightarrow> Inr results)"

section \<open>Vocabulary of the properties\<close>

text \<open>The precondition of a submit call: both payloads present, the name not blank.\<close>

definition valid_request :: "tryon_request \<Rightarrow> bool" where
  "valid_request request \<longleftrightarrow>
     rq_user_image request \<noteq> [] \<and> rq_clothing_image request \<noteq> [] \<and> strip (rq_name request) \<noteq> []"

text \<open>The record a valid submit call creates, and the identifiers a collection holds.\<close>

definition initial_record :: "env \<Rightarrow> tryon_request \<Rightarrow> tryon_result" where
  "initial_record e request =
     TryOnResult e (rq_name request) (rq_measurements request) (rq_style request) ''processing''"

definition stored_ids :: "world \<Rightarrow> string set" where
  "stored_ids w = tr_id ` set (tryon_results (db w))"

text \<open>What the image job of a submit call comes to (the state it runs in plays no part).\<close>

definition job_result :: "env \<Rightarrow> tryon_request \<Rightarrow> generation_result" where
  "job_result e request =
     fst (generate_virtual_tryon e (rq_user_image request) (rq_clothing_image request)
            (rq_measurements request) (rq_style request) (rq_name request)
            \<lparr>db = \<lparr>tryon_results = [], status_checks = []\<rparr>, history = [], fal_calls = []\<rparr>)"

text \<open>The requests a submit call sends to the provider: one, once both payloads decode.\<close>

definition job_calls :: "env \<Rightarrow> tryon_request \<Rightarrow> (string \<times> fal_arguments) list" where
  "job_calls e request =
     (if base64_to_pil e (rq_user_image request) = None
         \<or> base64_to_pil e (rq_clothing_image request) = None
      then []
      else [(''fal-ai/flux/dev'', tryon_arguments (rq_measurements request) (rq_style request))])"

text \<open>The database after the first write of a submit call, and after its second.\<close>

definition inserted :: "env \<Rightarrow> tryon_request \<Rightarrow> world \<Rightarrow> database" where
  "inserted e request w =
     (db w)\<lparr>tryon_results := tryon_results (db w) @ [initial_record e request]\<rparr>"

definition updated ::
  "env \<Rightarrow> tryon_request \<Rightarrow> (tryon_result \<Rightarrow> tryon_result) \<Rightarrow> world \<Rightarrow> database" where
  "updated e request f w =
     (inserted e request w)
       \<lparr>tryon_results := set_first (uuid4 e) f (tryon_results (inserted e request w))\<rparr>"

definition completed_record ::
  "env \<Rightarrow> tryon_request \<Rightarrow> string option \<Rightarrow> string \<Rightarrow> tryon_result" where
  "completed_record e request img fb =
     (initial_record e request)
       \<lparr>tryon_image := img, feedback := Some fb, status := ''completed''\<rparr>"

text \<open>The server starts on an empty database; a state is reachable when handler calls lead
  to it, every submit call drawing an identifier that no stored record has.\<close>

definition empty_database :: database where
  "empty_database = \<lparr>tryon_results = [], status_checks = []\<rparr>"

definition empty_world :: world where
  "empty_world = \<lparr>db = empty_database, history = [], fal_calls = []\<rparr>"

inductive reachable :: "world \<Rightarrow> bool" where
  start: "reachable empty_world"
| submit: "reachable w \<Longrightarrow> uuid4 e \<notin> stored_ids w \<Longrightarrow> reachable (snd (generate_tryon e request w))"
| ping: "reachable w \<Longrightarrow> reachable (snd (create_status_check e c w))"

text \<open>Only completed records have an artifact.\<close>

definition artifact_only_if_completed :: "database \<Rightarrow> bool" where
  "artifact_only_if_completed d \<longleftrightarrow>
     (\<forall>r \<in> set (tryon_results d). tryon_image r \<noteq> None \<longrightarrow> status r = ''completed'')"

text \<open>The status stored under an identifier, and the life of a record: the statuses an
  identifier goes through, repetitions dropped, from the empty database on.\<close>

definition status_of :: "string \<Rightarrow> database \<Rightarrow> string option" where
  "status_of i d = map_option status (find_by_id i (tryon_results d))"

definition status_life :: "string \<Rightarrow> world \<Rightarrow> string option list" where
  "status_life i w = remdups_adj (map (status_of i) (empty_database # history w))"

definition lifecycles :: "string option list set" where
  "lifecycles =
     {[None], [None, Some ''processing''], [None, Some ''processing'', Some ''completed''],
      [None, Some ''processing'', Some ''failed'']}"

text \<open>A stored record without the two fields every call draws afresh.\<close>

definition without_id_and_time :: "tryon_result \<Rightarrow> tryon_result" where
  "without_id_and_time r = r\<lparr>tr_id := [], created_at := 0\<rparr>"

section \<open>Sample calls\<close>

text \<open>The request of the specification's scenario, its payloads images of one pixel, and
  providers that answer with one image, with an empty set of images, with an image whose
  \<open>url\<close> is the empty string, and with an image whose \<open>url\<close> is \<open>null\<close>.\<close>

definition sample_measurements :: measurements where
  "sample_measurements =
     \<lparr>height = ''170'', weight = ''65'', chest = ''90'', waist = ''75'', hips = ''95''\<rparr>"

definition sample_request :: tryon_request where
  "sample_request =
     \<lparr>rq_name = ''Test User'',
      rq_user_image =
        ''data:image/png;base64,iVBORw0KGgoAAAANSUhEUgAAAAEAAAABCAYAAAAfFcSJAAAADUlEQVR42mNkYPhfDwAChwGA60e6kgAAAABJRU5ErkJggg=='',
      rq_clothing_image =
        ''data:image/png;base64,iVBORw0KGgoAAAANSUhEUgAAAAEAAAABCAYAAAAfFcSJAAAADUlEQVR42mP8z8BQDwAEhQGAhKmMIQAAAABJRU5ErkJggg=='',
      rq_measurements = sample_measurements, rq_style = ''casual''\<rparr>"

definition sample_env :: "string \<Rightarrow> nat \<Rightarrow> fal_outcome \<Rightarrow> env" where
  "sample_env i t outcome =
     \<lparr>uuid4 = i, utcnow = t,
      image_open = (\<lambda>s. if s = [] then None else Some (PILImage 1 1)),
      fal_submit = (\<lambda>app args. outcome),
      insert_raises = None, update_raises = None, find_raises = None\<rparr>"

definition one_image :: fal_outcome where
  "one_image = FalReturns (Images [Url (Some ''https://fal.media/files/a.png'')])"

definition no_images :: fal_outcome where
  "no_images = FalReturns (Images [])"



text \<open>The body of the sample request, the one \<open>backend_test.py\<close> sends, and the body its
  validation test sends first: the same without \<open>user_image\<close>.\<close>

definition sample_body :: tryon_body where
  "sample_body =
     \<lparr>b_name = Some (rq_name sample_request),
      b_user_image = Some (rq_user_image sample_request),
      b_clothing_image = Some (rq_clothing_image sample_request),
      b_measurements =
        Some \<lparr>b_height = Some ''170'', b_weight = Some ''65'', b_chest = Some ''90'',
              b_waist = Some ''75'', b_hips = Some ''95''\<rparr>,
      b_style = Some ''casual''\<rparr>"

definition body_without_user_image :: tryon_body where
  "body_without_user_image = sample_body\<lparr>b_user_image := None\<rparr>"

text \<open>The state after the sample call with one image, and after a second sample call,
  with another identifier, whose provider returns no image.\<close>

definition after_one :: world where
  "after_one = snd (generate_tryon (sample_env ''id-1'' 1000 one_image) sample_request empty_world)"

definition after_two :: world where
  "after_two = snd (generate_tryon (sample_env ''id-2'' 2000 no_images) sample_request after_one)"


definition sample_completed :: tryon_result where
  "sample_completed =
     completed_record (sample_env ''id-1'' 1000 one_image) sample_request
       (Some ''https://fal.media/files/a.png'')
       ''Virtual try-on generated successfully for casual style!''"

definition sample_failed :: tryon_result where
  "sample_failed =
     (initial_record (sample_env ''id-2'' 2000 no_images) sample_request)\<lparr>status := ''failed''\<rparr>"

text \<open>All documents of the collection, newest first.\<close>

definition newest_first :: "tryon_result list \<Rightarrow> tryon_result list" where
  "newest_first ds = rev (sort_key created_at ds)"

text \<open>The statuses an identifier has had, one for the empty database and one per write.\<close>

definition statuses :: "string \<Rightarrow> world \<Rightarrow> string option list" where
  "statuses i w = map (status_of i) (empty_database # history w)"

text \<open>Two other payloads for the sample request.\<close>

definition other_user_image :: string where
  "other_user_image =
     ''data:image/png;base64,iVBORw0KGgoAAAANSUhEUgAAAAEAAAABCAQAAAC1HAwCAAAAC0lEQVR42mNkYAAAAAYAAjCB0C8AAAAASUVORK5CYII=''"

definition other_clothing_image :: string where
  "other_clothing_image = ''R0lGODlhAQABAIAAAAAAAP///yH5BAEAAAAALAAAAAABAAEAAAIBRAA7''"


section \<open>The paths through \<open>generate_tryon\<close>\<close>

lemma py_optional_simps [simp]:
  "py_optional None = PyNone" "py_optional (Some s) = PyStr s"
  by (simp_all add: py_optional_def)

lemma generate_virtual_tryon_world:
  "generate_virtual_tryon e (rq_user_image rq) (rq_clothing_image rq) (rq_measurements rq)
     (rq_style rq) (rq_name rq) w
   = (job_result e rq, w\<lparr>fal_calls := fal_calls w @ job_calls e rq\<rparr>)"
  by (simp add: generate_virtual_tryon_def job_result_def job_calls_def fal_run_def Let_def
      split: fal_outcome.splits sum.splits)

lemma path_invalid:
  "\<not> valid_request rq \<Longrightarrow>
   generate_tryon e rq w =
     (Inl (HTTPException 400
        (if rq_user_image rq = [] then ''User image is required''
         else if rq_clothing_image rq = [] then ''Clothing image is required''
         else ''Name is required'')), w)"
  by (auto simp add: generate_tryon_def valid_request_def)

lemma path_insert_raises:
  "valid_request rq \<Longrightarrow> insert_raises e = Some msg \<Longrightarrow>
   generate_tryon e rq w = (Inl (internal_error msg), w)"
  by (simp add: generate_tryon_def valid_request_def insert_one_def)

lemma path_update_raises:
  "valid_request rq \<Longrightarrow> insert_raises e = None \<Longrightarrow> update_raises e = Some msg \<Longrightarrow>
   generate_tryon e rq w =
     (Inl (internal_error msg),
      w\<lparr>db := inserted e rq w, history := history w @ [inserted e rq w],
        fal_calls := fal_calls w @ job_calls e rq\<rparr>)"
  by (simp add: generate_tryon_def valid_request_def insert_one_def commit_def update_one_def
      initial_record_def inserted_def generate_virtual_tryon_world Let_def
      split: generation_result.splits)

lemma path_completed:
  "valid_request rq \<Longrightarrow> insert_raises e = None \<Longrightarrow> update_raises e = None \<Longrightarrow>
   job_result e rq = GenSuccess img fb \<Longrightarrow>
   generate_tryon e rq w =
     (Inr [(''success'', PyBool True), (''id'', PyStr (uuid4 e)),
           (''tryon_image'', py_optional img), (''feedback'', PyStr fb),
           (''status'', PyStr ''completed'')],
      w\<lparr>db := updated e rq (\<lambda>d. completed_record e rq img fb) w,
        history := history w @
          [inserted e rq w, updated e rq (\<lambda>d. completed_record e rq img fb) w],
        fal_calls := fal_calls w @ job_calls e rq\<rparr>)"
  by (simp add: generate_tryon_def valid_request_def insert_one_def commit_def update_one_def
      initial_record_def inserted_def updated_def completed_record_def
      generate_virtual_tryon_world Let_def TryOnResult_def)

lemma path_failed:
  "valid_request rq \<Longrightarrow> insert_raises e = None \<Longrightarrow> update_raises e = None \<Longrightarrow>
   job_result e rq = GenFailure err \<Longrightarrow>
   generate_tryon e rq w =
     (Inl (HTTPException 500 (''Failed to generate try-on: '' @ err)),
      w\<lparr>db := updated e rq (\<lambda>d. d\<lparr>status := ''failed''\<rparr>) w,
        history := history w @
          [inserted e rq w, updated e rq (\<lambda>d. d\<lparr>status := ''failed''\<rparr>) w],
        fal_calls := fal_calls w @ job_calls e rq\<rparr>)"
  by (simp add: generate_tryon_def valid_request_def insert_one_def commit_def update_one_def
      initial_record_def inserted_def updated_def generate_virtual_tryon_world
      Let_def TryOnResult_def)

section \<open>Lookups and updates in a collection\<close>

lemma find_by_id_append:
  "find_by_id i (xs @ ys) = (case find_by_id i xs of None \<Rightarrow> find_by_id i ys | Some r \<Rightarrow> Some r)"
  by (induction xs) (simp_all add: find_by_id_def)

lemma find_by_id_None: "find_by_id i ds = None \<longleftrightarrow> i \<notin> tr_id ` set ds"
  by (induction ds) (auto simp: find_by_id_def)

lemma find_by_id_Some: "find_by_id i ds = Some r \<Longrightarrow> r \<in> set ds \<and> tr_id r = i"
  by (induction ds) (auto simp: find_by_id_def split: if_splits)

lemma find_by_id_set_first:
  assumes "\<And>d. tr_id d = i \<Longrightarrow> tr_id (f d) = i"
  shows "find_by_id i (set_first i f ds) = map_option f (find_by_id i ds)"
  using assms by (induction ds) (simp_all add: find_by_id_def)

lemma find_by_id_set_first_other:
  assumes "j \<noteq> i" and "\<And>d. tr_id d = i \<Longrightarrow> tr_id (f d) = i"
  shows "find_by_id j (set_first i f ds) = find_by_id j ds"
  using assms by (induction ds) (simp_all add: find_by_id_def)

lemma set_first_fresh:
  "i \<notin> tr_id ` set ds \<Longrightarrow> set_first i f ds = ds"
  by (induction ds) auto

lemma set_first_append_fresh:
  "i \<notin> tr_id ` set ds \<Longrightarrow> set_first i f (ds @ [r]) = ds @ [if tr_id r = i then f r else r]"
  by (induction ds) auto

lemma length_set_first [simp]: "length (set_first i f ds) = length ds"
  by (induction ds) auto

lemma initial_record_simps [simp]:
  "tr_id (initial_record e rq) = uuid4 e"
  "tr_name (initial_record e rq) = rq_name rq"
  "tr_measurements (initial_record e rq) = rq_measurements rq"
  "tr_style (initial_record e rq) = rq_style rq"
  "tryon_image (initial_record e rq) = None"
  "feedback (initial_record e rq) = None"
  "created_at (initial_record e rq) = utcnow e"
  "status (initial_record e rq) = ''processing''"
  by (simp_all add: initial_record_def TryOnResult_def)

lemma find_inserted:
  "\<exists>r. find_by_id (uuid4 e) (tryon_results (inserted e rq w)) = Some r"
  by (cases "find_by_id (uuid4 e) (tryon_results (db w))")
     (simp_all add: inserted_def find_by_id_append, simp add: find_by_id_def)

lemma find_updated:
  assumes "\<And>d. tr_id d = uuid4 e \<Longrightarrow> tr_id (f d) = uuid4 e"
  shows "\<exists>r. find_by_id (uuid4 e) (tryon_results (inserted e rq w)) = Some r
           \<and> find_by_id (uuid4 e) (tryon_results (updated e rq f w)) = Some (f r)"
  using find_inserted [of e rq w] by (auto simp: updated_def find_by_id_set_first [OF assms])

lemma job_result_cases:
  "job_result e rq = GenSuccess img fb \<longleftrightarrow>
     base64_to_pil e (rq_user_image rq) \<noteq> None \<and> base64_to_pil e (rq_clothing_image rq) \<noteq> None
     \<and> (\<exists>rest. fal_submit e ''fal-ai/flux/dev'' (tryon_arguments (rq_measurements rq) (rq_style rq))
             = FalReturns (Images (Url img # rest)))
     \<and> fb = ''Virtual try-on generated successfully for '' @ rq_style rq @ '' style!''"
  by (auto simp: job_result_def generate_virtual_tryon_def fal_run_def first_image_url_def Let_def
      split: fal_outcome.splits fal_result.splits option.splits list.splits fal_image.splits)

section \<open>Validation\<close>

text \<open>
  What the handler does with a request whose user image or clothing image is the empty
  string, or whose name is blank after trimming: it refuses it with status 400 and a detail
  that names a field that is indeed missing, and returns the state it was given, so it
  writes nothing.
\<close>

lemma invalid_request_rejected:
  assumes "\<not> valid_request rq"
  shows "\<exists>detail. generate_tryon e rq w = (Inl (HTTPException 400 detail), w)
           \<and> (detail = ''User image is required'' \<and> rq_user_image rq = []
              \<or> detail = ''Clothing image is required'' \<and> rq_clothing_image rq = []
              \<or> detail = ''Name is required'' \<and> strip (rq_name rq) = [])"
proof -
  from assms have missing:
    "rq_user_image rq = [] \<or> rq_clothing_image rq = [] \<or> strip (rq_name rq) = []"
    by (auto simp: valid_request_def)
  show ?thesis
    unfolding path_invalid [OF assms] using missing by auto
qed

lemma blank_name_rejected:
  "generate_tryon (sample_env ''id-1'' 1000 one_image) (sample_request\<lparr>rq_name := ''  ''\<rparr>)
         empty_world
       = (Inl (HTTPException 400 ''Name is required''), empty_world)"
  using invalid_request_rejected [of "sample_request\<lparr>rq_name := ''  ''\<rparr>"
      "sample_env ''id-1'' 1000 one_image" empty_world]
  by (simp add: valid_request_def sample_request_def strip_def isspace_def)

text \<open>
  What the route does with a body: one that lacks a field without default never reaches
  the handler, is answered with status 422 and the places of the missing fields, and
  leaves the state as it was; a complete body is handed to the handler as the request it
  spells out.
\<close>

lemma Measurements_missing:
  "missing_measurements mb \<noteq> [] \<Longrightarrow> Measurements mb = None"
  by (cases "b_height mb"; cases "b_weight mb"; cases "b_chest mb"; cases "b_waist mb";
      cases "b_hips mb")
     (simp_all add: Measurements_def missing_measurements_def)

lemma TryOnRequest_missing:
  assumes "missing_fields body \<noteq> []"
  shows "TryOnRequest body = Inl (missing_fields body)"
  using assms
  by (cases "b_name body"; cases "b_user_image body"; cases "b_clothing_image body";
      cases "b_measurements body")
     (simp_all add: TryOnRequest_def missing_fields_def Measurements_missing)

lemma incomplete_body_rejected:
  assumes "missing_fields body \<noteq> []"
  shows "post_tryon_generate e body w = (Inl (RequestValidationError (missing_fields body)), w)"
  by (simp add: post_tryon_generate_def TryOnRequest_missing [OF assms])

lemma complete_body_handled:
  "TryOnRequest body = Inr request \<Longrightarrow> post_tryon_generate e body w = generate_tryon e request w"
  by (simp add: post_tryon_generate_def)

lemma sample_body_request: "TryOnRequest sample_body = Inr sample_request"
  by (simp add: TryOnRequest_def Measurements_def sample_body_def sample_request_def
      sample_measurements_def)

text \<open>
  Claim C2. The claim has a request without user image refused with status 400 and the
  detail that names the field, and so does \<open>backend_test.py\<close>, whose validation test sends
  the sample body without the key \<open>user_image\<close> and expects 400. The route answers that
  body with status 422 and the place of the missing field, without calling the handler that
  holds the check; nothing is written.
\<close>

theorem missing_user_image_answered_422:
  "post_tryon_generate (sample_env ''id-1'' 1000 one_image) body_without_user_image empty_world
     = (Inl (RequestValidationError [[''body'', ''user_image'']]), empty_world)
   \<and> status_code (RequestValidationError [[''body'', ''user_image'']]) = 422
   \<and> post_tryon_generate (sample_env ''id-1'' 1000 one_image) body_without_user_image empty_world
       \<noteq> (Inl (HTTPException 400 ''User image is required''), empty_world)"
  by (simp add: post_tryon_generate_def TryOnRequest_def body_without_user_image_def
      sample_body_def missing_fields_def missing_measurements_def)

section \<open>Facts about the sample calls\<close>

lemma sample_valid: "valid_request sample_request"
  by (simp add: valid_request_def sample_request_def strip_def isspace_def)

lemma sample_decodes:
  "base64_to_pil (sample_env i t outcome) (rq_user_image sample_request) \<noteq> None"
  "base64_to_pil (sample_env i t outcome) (rq_clothing_image sample_request) \<noteq> None"
  by (simp_all add: sample_request_def sample_env_def base64_to_pil_def startswith_def)

lemma sample_job_one_image:
  "job_result (sample_env i t one_image) sample_request =
     GenSuccess (Some ''https://fal.media/files/a.png'')
       ''Virtual try-on generated successfully for casual style!''"
  using sample_decodes [of i t one_image]
  by (simp add: job_result_cases) (simp add: sample_env_def one_image_def sample_request_def)



lemma sample_job_no_images:
  "job_result (sample_env i t no_images) sample_request =
     GenFailure ''No images generated by FAL.AI''"
  using sample_decodes [of i t no_images]
  by (simp add: job_result_def generate_virtual_tryon_def fal_run_def)
     (simp add: sample_env_def no_images_def first_image_url_def)

lemma sample_env_simps [simp]:
  "uuid4 (sample_env i t outcome) = i"
  "utcnow (sample_env i t outcome) = t"
  "insert_raises (sample_env i t outcome) = None"
  "update_raises (sample_env i t outcome) = None"
  "find_raises (sample_env i t outcome) = None"
  by (simp_all add: sample_env_def)

section \<open>Outcomes of a submit call\<close>




section \<open>A failed image job\<close>

text \<open>
  Claim C5. When the image job of a valid submit call fails with a message \<open>err\<close> (the two
  writes going through, the identifier being new to the collection), the call makes two
  writes: the first appends the record with status \<open>processing\<close>, the second leaves the
  collection as it was but for the status of that record, now \<open>failed\<close>; every other field
  of it, and every other record, is what it was. The call fails with status 500, its detail
  carrying \<open>err\<close>.
\<close>

theorem failed_job_sets_status_only:
  assumes "valid_request rq" and "insert_raises e = None" and "update_raises e = None"
    and "job_result e rq = GenFailure err"
    and "uuid4 e \<notin> stored_ids w"
  shows "\<exists>d1 d2 w'.
           generate_tryon e rq w =
             (Inl (HTTPException 500 (''Failed to generate try-on: '' @ err)), w')
           \<and> history w' = history w @ [d1, d2] \<and> db w' = d2
           \<and> tryon_results d1 = tryon_results (db w) @ [initial_record e rq]
           \<and> tryon_results d2 =
               tryon_results (db w) @ [(initial_record e rq)\<lparr>status := ''failed''\<rparr>]
           \<and> status_checks d1 = status_checks (db w)
           \<and> status_checks d2 = status_checks (db w)"
proof -
  let ?f = "\<lambda>d::tryon_result. d\<lparr>status := ''failed''\<rparr>"
  have fresh: "uuid4 e \<notin> tr_id ` set (tryon_results (db w))"
    using assms(5) by (simp add: stored_ids_def)
  have "tryon_results (updated e rq ?f w) =
          tryon_results (db w) @ [(initial_record e rq)\<lparr>status := ''failed''\<rparr>]"
    by (simp add: updated_def inserted_def set_first_append_fresh [OF fresh])
  then show ?thesis
    by (simp add: path_failed [OF assms(1-4)] inserted_def updated_def)
qed

theorem failed_job_sets_status_only_witness:
  "valid_request sample_request
   \<and> generate_tryon (sample_env ''id-1'' 1000 no_images) sample_request empty_world =
       (Inl (HTTPException 500 ''Failed to generate try-on: No images generated by FAL.AI''),
        snd (generate_tryon (sample_env ''id-1'' 1000 no_images) sample_request empty_world))
   \<and> map tryon_results
        (history (snd (generate_tryon (sample_env ''id-1'' 1000 no_images) sample_request
           empty_world)))
       = [[initial_record (sample_env ''id-1'' 1000 no_images) sample_request],
          [(initial_record (sample_env ''id-1'' 1000 no_images) sample_request)
             \<lparr>status := ''failed''\<rparr>]]"
  using failed_job_sets_status_only [OF sample_valid _ _ sample_job_no_images,
      of "''id-1''" 1000 empty_world]
  by (auto simp: stored_ids_def empty_world_def empty_database_def sample_valid)

section \<open>Reading a record back\<close>

text \<open>A call that returns a response went through validation, both writes and a
  successful image job.\<close>

lemma success_path:
  assumes "generate_tryon e rq w = (Inr response, w')"
  shows "valid_request rq \<and> insert_raises e = None \<and> update_raises e = None
         \<and> (\<exists>img fb. job_result e rq = GenSuccess img fb)"
proof -
  have v: "valid_request rq"
    using assms path_invalid [of rq e w] by auto
  have i: "insert_raises e = None"
    using assms path_insert_raises [OF v, of e _ w] by (cases "insert_raises e") auto
  have u: "update_raises e = None"
    using assms path_update_raises [OF v i, of _ w] by (cases "update_raises e") auto
  have "\<exists>img fb. job_result e rq = GenSuccess img fb"
    using assms path_failed [OF v i u, of _ w] by (cases "job_result e rq") auto
  with v i u show ?thesis by blast
qed

text \<open>
  Claim C8. After a submit call that returned a response, reading the record back by the
  returned \<open>id\<close> in the state the call left (the read itself not failing) gives a record
  with that \<open>id\<close> and with the name, the measurements and the style of the request.
\<close>

theorem get_after_submit:
  assumes "generate_tryon e rq w = (Inr response, w')" and "find_raises e' = None"
  shows "\<exists>r. map_of response ''id'' = Some (PyStr (tr_id r))
             \<and> get_tryon_result e' (tr_id r) w' = Inr r
             \<and> tr_id r = uuid4 e \<and> tr_name r = rq_name rq
             \<and> tr_measurements r = rq_measurements rq \<and> tr_style r = rq_style rq"
proof -
  from success_path [OF assms(1)] obtain img fb where
    p: "valid_request rq" "insert_raises e = None" "update_raises e = None"
       "job_result e rq = GenSuccess img fb"
    by blast
  let ?r = "completed_record e rq img fb"
  have "tr_id ((\<lambda>d. ?r) d) = uuid4 e" for d :: tryon_result
    by (simp add: completed_record_def)
  from find_updated [of e "\<lambda>d. ?r" rq w, OF this] have stored:
    "find_by_id (uuid4 e) (tryon_results (updated e rq (\<lambda>d. ?r) w)) = Some ?r"
    by blast
  have run: "db w' = updated e rq (\<lambda>d. ?r) w" "map_of response ''id'' = Some (PyStr (uuid4 e))"
    using assms(1) by (auto simp: path_completed [OF p])
  have "get_tryon_result e' (uuid4 e) w' = Inr ?r"
    using assms(2) stored by (simp add: get_tryon_result_def find_one_def run)
  then show ?thesis
    using run(2) by (intro exI [of _ ?r]) (simp add: completed_record_def)
qed

theorem get_after_submit_witness:
  "get_tryon_result (sample_env ''id-2'' 2000 no_images) ''id-1''
     (snd (generate_tryon (sample_env ''id-1'' 1000 one_image) sample_request empty_world))
   = Inr (completed_record (sample_env ''id-1'' 1000 one_image) sample_request
            (Some ''https://fal.media/files/a.png'')
            ''Virtual try-on generated successfully for casual style!'')"
proof -
  let ?e = "sample_env ''id-1'' 1000 one_image"
  have run: "generate_tryon ?e sample_request empty_world =
      (Inr (projr (fst (generate_tryon ?e sample_request empty_world))),
       snd (generate_tryon ?e sample_request empty_world))"
    by (simp add: path_completed [OF sample_valid _ _ sample_job_one_image])
  from get_after_submit [OF run, of "sample_env ''id-2'' 2000 no_images"]
  show ?thesis
    by (auto simp: path_completed [OF sample_valid _ _ sample_job_one_image] updated_def inserted_def
        empty_world_def empty_database_def get_tryon_result_def find_one_def find_by_id_def
        completed_record_def)
qed

section \<open>The response of a successful submit call\<close>

text \<open>
  Claim C9, as the code has it. A submit call that returns a response has persisted the
  completed record (the database is the one of the last write), and the response is the
  dictionary with the five keys \<open>success\<close>, \<open>id\<close>, \<open>tryon_image\<close>, \<open>feedback\<close> and \<open>status\<close>,
  the last four with the values of the stored record.
\<close>

theorem response_mirrors_stored_record:
  assumes "generate_tryon e rq w = (Inr response, w')"
  shows "\<exists>r. find_by_id (uuid4 e) (tryon_results (db w')) = Some r
             \<and> status r = ''completed''
             \<and> response =
                 [(''success'', PyBool True), (''id'', PyStr (tr_id r)),
                  (''tryon_image'', py_optional (tryon_image r)),
                  (''feedback'', py_optional (feedback r)), (''status'', PyStr (status r))]
             \<and> history w' \<noteq> [] \<and> last (history w') = db w'"
proof -
  from success_path [OF assms(1)] obtain img fb where
    p: "valid_request rq" "insert_raises e = None" "update_raises e = None"
       "job_result e rq = GenSuccess img fb"
    by blast
  let ?f = "\<lambda>d::tryon_result. completed_record e rq img fb"
  have "tr_id (?f d) = uuid4 e" for d :: tryon_result
    by (simp add: completed_record_def)
  from find_updated [of e ?f rq w, OF this] have
    "find_by_id (uuid4 e) (tryon_results (updated e rq ?f w)) = Some (completed_record e rq img fb)"
    by blast
  moreover have "w' = snd (generate_tryon e rq w)" "response = projr (fst (generate_tryon e rq w))"
    using assms(1) by simp_all
  ultimately show ?thesis
    by (simp add: path_completed [OF p] completed_record_def py_optional_def)
qed

theorem response_mirrors_stored_record_witness:
  "find_by_id ''id-1'' (tryon_results (db (snd
       (generate_tryon (sample_env ''id-1'' 1000 one_image) sample_request empty_world))))
     = Some (completed_record (sample_env ''id-1'' 1000 one_image) sample_request
            (Some ''https://fal.media/files/a.png'')
            ''Virtual try-on generated successfully for casual style!'')"
proof -
  let ?e = "sample_env ''id-1'' 1000 one_image"
  have run: "generate_tryon ?e sample_request empty_world =
      (Inr (projr (fst (generate_tryon ?e sample_request empty_world))),
       snd (generate_tryon ?e sample_request empty_world))"
    by (simp add: path_completed [OF sample_valid _ _ sample_job_one_image])
  from response_mirrors_stored_record [OF run]
  show ?thesis
    by (auto simp: path_completed [OF sample_valid _ _ sample_job_one_image] updated_def inserted_def
        empty_world_def empty_database_def find_by_id_def completed_record_def)
qed

text \<open>
  Claim C9 as stated has the call return the record as stored, name, measurements, style
  and creation time included. In the sample call the response has five entries; the stored
  record, as a dictionary, has ten, and is not what is returned.
\<close>

theorem response_is_not_the_stored_record:
  "fst (generate_tryon (sample_env ''id-1'' 1000 one_image) sample_request empty_world)
     = Inr [(''success'', PyBool True), (''id'', PyStr ''id-1''),
            (''tryon_image'', PyStr ''https://fal.media/files/a.png''),
            (''feedback'', PyStr ''Virtual try-on generated successfully for casual style!''),
            (''status'', PyStr ''completed'')]
   \<and> find_by_id ''id-1'' (tryon_results (db (snd
         (generate_tryon (sample_env ''id-1'' 1000 one_image) sample_request empty_world))))
       = Some (completed_record (sample_env ''id-1'' 1000 one_image) sample_request
            (Some ''https://fal.media/files/a.png'')
            ''Virtual try-on generated successfully for casual style!'')
   \<and> fst (generate_tryon (sample_env ''id-1'' 1000 one_image) sample_request empty_world)
       \<noteq> Inr (tryon_result_dict (completed_record (sample_env ''id-1'' 1000 one_image)
            sample_request (Some ''https://fal.media/files/a.png'')
            ''Virtual try-on generated successfully for casual style!''))
   \<and> map fst (tryon_result_dict (completed_record (sample_env ''id-1'' 1000 one_image)
            sample_request (Some ''https://fal.media/files/a.png'')
            ''Virtual try-on generated successfully for casual style!''))
       = [''id'', ''name'', ''user_image_url'', ''clothing_image_url'', ''tryon_image'',
          ''measurements'', ''style'', ''feedback'', ''created_at'', ''status'']"
  by (simp add: path_completed [OF sample_valid _ _ sample_job_one_image] updated_def inserted_def
        empty_world_def empty_database_def find_by_id_def completed_record_def
        tryon_result_dict_def)

section \<open>The states after the sample calls\<close>

lemma after_one_db:
  "db after_one = \<lparr>tryon_results = [sample_completed], status_checks = []\<rparr>"
  by (simp add: after_one_def path_completed [OF sample_valid _ _ sample_job_one_image]
      updated_def inserted_def empty_world_def empty_database_def sample_completed_def
      completed_record_def)

lemma after_two_db:
  "db after_two = \<lparr>tryon_results = [sample_completed, sample_failed], status_checks = []\<rparr>"
  by (simp add: after_two_def path_failed [OF sample_valid _ _ sample_job_no_images]
      updated_def inserted_def after_one_db sample_completed_def sample_failed_def
      completed_record_def)

lemma sample_record_simps [simp]:
  "tr_id sample_completed = ''id-1''" "tr_id sample_failed = ''id-2''"
  "created_at sample_completed = 1000" "created_at sample_failed = 2000"
  "status sample_completed = ''completed''" "status sample_failed = ''failed''"
  "tryon_image sample_completed = Some ''https://fal.media/files/a.png''"
  "tryon_image sample_failed = None"
  by (simp_all add: sample_completed_def sample_failed_def completed_record_def)

section \<open>Listing\<close>

lemma newest_first_sorted:
  "sorted_wrt (\<lambda>a b. created_at b \<le> created_at a) (newest_first ds)"
proof -
  have "sorted (map created_at (sort_key created_at ds))"
    by (rule sorted_sort_key)
  then have "sorted_wrt (\<lambda>a b. created_at a \<le> created_at b) (sort_key created_at ds)"
    by (simp add: sorted_map)
  then show ?thesis
    by (simp add: newest_first_def sorted_wrt_rev)
qed

lemma newest_first_mset: "mset (newest_first ds) = mset ds"
  by (simp add: newest_first_def)

lemma sorted_wrt_take_drop:
  assumes "sorted_wrt P xs" and "x \<in> set (drop n xs)" and "y \<in> set (take n xs)"
  shows "P y x"
proof -
  from assms(1) have "sorted_wrt P (take n xs @ drop n xs)"
    by simp
  then show ?thesis
    using assms(2,3) unfolding sorted_wrt_append by blast
qed

lemma mset_take_drop: "mset xs - mset (take n xs) = mset (drop n xs)"
proof -
  have "mset xs = mset (take n xs) + mset (drop n xs)"
    by (metis append_take_drop_id mset_append)
  then show ?thesis by simp
qed

text \<open>
  Claim C7. When the query does not fail, \<open>get_all_tryons\<close> returns stored records in
  descending order of \<open>created_at\<close>, at most 100 of them: all of them when there are no more
  than 100, and otherwise 100 such that no record left out is newer than one returned.
\<close>

theorem list_newest_first:
  assumes "find_raises e = None"
  shows "\<exists>rs. get_all_tryons e w = Inr rs
              \<and> sorted_wrt (\<lambda>a b. created_at b \<le> created_at a) rs
              \<and> length rs \<le> 100
              \<and> length rs = min 100 (length (tryon_results (db w)))
              \<and> mset rs \<subseteq># mset (tryon_results (db w))
              \<and> (\<forall>x \<in># mset (tryon_results (db w)) - mset rs. \<forall>y \<in> set rs.
                    created_at x \<le> created_at y)"
proof -
  let ?all = "newest_first (tryon_results (db w))"
  let ?rs = "take 100 ?all"
  have run: "get_all_tryons e w = Inr ?rs"
    using assms by (simp add: get_all_tryons_def find_sorted_def newest_first_def)
  have sorted: "sorted_wrt (\<lambda>a b. created_at b \<le> created_at a) ?rs"
    using newest_first_sorted by (rule sorted_wrt_take)
  have len: "length ?rs = min 100 (length (tryon_results (db w)))"
    by (simp add: newest_first_def min.commute)
  have sub: "mset ?rs \<subseteq># mset (tryon_results (db w))"
    by (metis newest_first_mset append_take_drop_id mset_append mset_subset_eq_add_left)
  have rest: "mset (tryon_results (db w)) - mset ?rs = mset (drop 100 ?all)"
    using mset_take_drop [of ?all 100] by (simp add: newest_first_mset)
  have older: "created_at x \<le> created_at y"
    if "x \<in># mset (tryon_results (db w)) - mset ?rs" and "y \<in> set ?rs" for x y
    using sorted_wrt_take_drop [OF newest_first_sorted, of x 100 "tryon_results (db w)" y] that
    by (simp add: rest)
  from run sorted len sub older show ?thesis
    by (intro exI [of _ ?rs]) simp
qed

theorem list_newest_first_witness:
  "get_all_tryons (sample_env ''id-3'' 3000 one_image) after_two =
     Inr [sample_failed, sample_completed]"
  using list_newest_first [of "sample_env ''id-3'' 3000 one_image" after_two]
  by (simp add: get_all_tryons_def find_sorted_def after_two_db)

section \<open>The writes of one call\<close>

lemma updated_fresh:
  assumes "uuid4 e \<notin> stored_ids w"
  shows "tryon_results (updated e rq f w) = tryon_results (db w) @ [f (initial_record e rq)]"
  using assms by (simp add: updated_def inserted_def stored_ids_def set_first_append_fresh)

lemma inserted_simps [simp]:
  "tryon_results (inserted e rq w) = tryon_results (db w) @ [initial_record e rq]"
  "status_checks (inserted e rq w) = status_checks (db w)"
  by (simp_all add: inserted_def)

lemma updated_status_checks [simp]:
  "status_checks (updated e rq f w) = status_checks (db w)"
  by (simp add: updated_def)

text \<open>What one submit call adds to the write history.\<close>

lemma generate_tryon_writes:
  obtains
    (nothing) "history (snd (generate_tryon e rq w)) = history w"
      "db (snd (generate_tryon e rq w)) = db w"
  | (processing) "history (snd (generate_tryon e rq w)) = history w @ [inserted e rq w]"
      "db (snd (generate_tryon e rq w)) = inserted e rq w"
  | (completed) img fb where
      "history (snd (generate_tryon e rq w)) =
         history w @ [inserted e rq w, updated e rq (\<lambda>d. completed_record e rq img fb) w]"
      "db (snd (generate_tryon e rq w)) = updated e rq (\<lambda>d. completed_record e rq img fb) w"
  | (failed)
      "history (snd (generate_tryon e rq w)) =
         history w @ [inserted e rq w, updated e rq (\<lambda>d. d\<lparr>status := ''failed''\<rparr>) w]"
      "db (snd (generate_tryon e rq w)) = updated e rq (\<lambda>d. d\<lparr>status := ''failed''\<rparr>) w"
proof (cases "valid_request rq")
  case False
  show ?thesis
    by (rule nothing) (simp_all add: path_invalid [OF False])
next
  case valid: True
  show ?thesis
  proof (cases "insert_raises e")
    case (Some msg)
    show ?thesis
      by (rule nothing) (simp_all add: path_insert_raises [OF valid Some])
  next
    case ins: None
    show ?thesis
    proof (cases "update_raises e")
      case (Some msg)
      show ?thesis
        by (rule processing) (simp_all add: path_update_raises [OF valid ins Some])
    next
      case upd: None
      show ?thesis
      proof (cases "job_result e rq")
        case (GenSuccess img fb)
        show ?thesis
          by (rule completed [of img fb]) (simp_all add: path_completed [OF valid ins upd GenSuccess])
      next
        case (GenFailure err)
        show ?thesis
          by (rule failed) (simp_all add: path_failed [OF valid ins upd GenFailure])
      qed
    qed
  qed
qed

lemma create_status_check_writes:
  obtains
    (nothing) "history (snd (create_status_check e c w)) = history w"
      "db (snd (create_status_check e c w)) = db w"
  | (written) d where "history (snd (create_status_check e c w)) = history w @ [d]"
      "db (snd (create_status_check e c w)) = d" "tryon_results d = tryon_results (db w)"
proof (cases "insert_raises e")
  case None
  show ?thesis
    by (rule written [of "(db w)\<lparr>status_checks := status_checks (db w) @
          [\<lparr>sc_id = uuid4 e, client_name = c, timestamp = utcnow e\<rparr>]\<rparr>"])
       (simp_all add: create_status_check_def insert_status_def commit_def Let_def None)
next
  case (Some msg)
  show ?thesis
    by (rule nothing) (simp_all add: create_status_check_def insert_status_def Some)
qed

section \<open>Reachable states\<close>

lemma after_one_world:
  "history after_one =
     [\<lparr>tryon_results = [initial_record (sample_env ''id-1'' 1000 one_image) sample_request],
       status_checks = []\<rparr>,
      \<lparr>tryon_results = [sample_completed], status_checks = []\<rparr>]"
  by (simp add: after_one_def path_completed [OF sample_valid _ _ sample_job_one_image]
      updated_def inserted_def empty_world_def empty_database_def sample_completed_def
      completed_record_def)

lemma after_two_world:
  "history after_two =
     [\<lparr>tryon_results = [initial_record (sample_env ''id-1'' 1000 one_image) sample_request],
       status_checks = []\<rparr>,
      \<lparr>tryon_results = [sample_completed], status_checks = []\<rparr>,
      \<lparr>tryon_results =
         [sample_completed, initial_record (sample_env ''id-2'' 2000 no_images) sample_request],
       status_checks = []\<rparr>,
      \<lparr>tryon_results = [sample_completed, sample_failed], status_checks = []\<rparr>]"
  by (simp add: after_two_def path_failed [OF sample_valid _ _ sample_job_no_images]
      updated_def inserted_def after_one_db after_one_world sample_failed_def)

lemma reachable_after_one: "reachable after_one"
  unfolding after_one_def
  by (rule reachable.submit [OF reachable.start])
     (simp add: stored_ids_def empty_world_def empty_database_def)

lemma reachable_after_two: "reachable after_two"
  unfolding after_two_def
  by (rule reachable.submit [OF reachable_after_one])
     (simp add: stored_ids_def after_one_db)

subsection \<open>Artifacts\<close>

lemma artifact_inserted:
  "artifact_only_if_completed (db w) \<Longrightarrow> artifact_only_if_completed (inserted e rq w)"
  by (simp add: artifact_only_if_completed_def)

lemma artifact_completed:
  "artifact_only_if_completed (db w) \<Longrightarrow> uuid4 e \<notin> stored_ids w \<Longrightarrow>
   artifact_only_if_completed (updated e rq (\<lambda>d. completed_record e rq img fb) w)"
  by (simp add: artifact_only_if_completed_def updated_fresh completed_record_def)

lemma artifact_failed:
  "artifact_only_if_completed (db w) \<Longrightarrow> uuid4 e \<notin> stored_ids w \<Longrightarrow>
   artifact_only_if_completed (updated e rq (\<lambda>d. d\<lparr>status := ''failed''\<rparr>) w)"
  by (simp add: artifact_only_if_completed_def updated_fresh)

lemma reachable_artifacts:
  "reachable w \<Longrightarrow>
   artifact_only_if_completed (db w) \<and> (\<forall>d \<in> set (history w). artifact_only_if_completed d)"
proof (induction rule: reachable.induct)
  case start
  show ?case
    by (simp add: empty_world_def empty_database_def artifact_only_if_completed_def)
next
  case (submit w e request)
  then have now: "artifact_only_if_completed (db w)"
    and past: "\<forall>d \<in> set (history w). artifact_only_if_completed d"
    by simp_all
  note fresh = \<open>uuid4 e \<notin> stored_ids w\<close>
  show ?case
  proof (cases rule: generate_tryon_writes [of e request w])
    case nothing
    then show ?thesis using now past by simp
  next
    case processing
    then show ?thesis using past artifact_inserted [OF now] by simp
  next
    case (completed img fb)
    then show ?thesis
      using past artifact_inserted [OF now] artifact_completed [OF now fresh] by simp
  next
    case failed
    then show ?thesis
      using past artifact_inserted [OF now] artifact_failed [OF now fresh] by simp
  qed
next
  case (ping w e c)
  then have now: "artifact_only_if_completed (db w)"
    and past: "\<forall>d \<in> set (history w). artifact_only_if_completed d"
    by simp_all
  show ?case
  proof (cases rule: create_status_check_writes [of e c w])
    case nothing
    then show ?thesis using now past by simp
  next
    case (written d)
    then have "artifact_only_if_completed d"
      using now by (simp add: artifact_only_if_completed_def)
    then show ?thesis using written past by simp
  qed
qed






subsection \<open>The life of a status\<close>

lemma remdups_adj_snoc:
  assumes "xs \<noteq> []"
  shows "remdups_adj (xs @ [x]) = (if last xs = x then remdups_adj xs else remdups_adj xs @ [x])"
proof -
  have "remdups_adj (butlast xs @ [last xs, x]) =
          remdups_adj (butlast xs @ [last xs]) @ (if last xs = x then [] else [x])"
    by (rule remdups_adj_append_two)
  moreover have "butlast xs @ [last xs, x] = xs @ [x]" "butlast xs @ [last xs] = xs"
    using assms by simp_all
  ultimately show ?thesis by simp
qed

lemma life_repeats:
  assumes "xs \<noteq> []" and "set ys \<subseteq> {last xs}"
  shows "remdups_adj (xs @ ys) = remdups_adj xs"
  using assms
proof (induction ys rule: rev_induct)
  case Nil
  then show ?case by simp
next
  case (snoc y ys)
  then have "remdups_adj (xs @ ys) = remdups_adj xs" and y: "y = last xs"
    and ys: "set ys \<subseteq> {last xs}"
    by auto
  moreover have "last (xs @ ys) = last xs"
    using ys snoc.prems(1) by (cases ys rule: rev_cases) auto
  ultimately show ?case
    using remdups_adj_snoc [of "xs @ ys" y] snoc.prems(1) by simp
qed

lemma life_unborn:
  assumes "xs \<noteq> []" and "remdups_adj xs \<in> lifecycles" and "last xs = None"
  shows "remdups_adj xs = [None]"
proof -
  have "last (remdups_adj xs) = None"
    using assms(3) by simp
  with assms(2) show ?thesis
    by (auto simp add: lifecycles_def simp del: last_remdups_adj)
qed

lemma life_begins:
  assumes "xs \<noteq> []" and "remdups_adj xs \<in> lifecycles" and "last xs = None"
  shows "remdups_adj (xs @ [Some ''processing'']) \<in> lifecycles"
    and "remdups_adj (xs @ [Some ''processing'', Some ''completed'']) \<in> lifecycles"
    and "remdups_adj (xs @ [Some ''processing'', Some ''failed'']) \<in> lifecycles"
proof -
  have one: "remdups_adj (xs @ [Some ''processing'']) = [None, Some ''processing'']"
    using remdups_adj_snoc [OF assms(1), of "Some ''processing''"] life_unborn [OF assms] assms(3)
    by simp
  then show "remdups_adj (xs @ [Some ''processing'']) \<in> lifecycles"
    by (simp add: lifecycles_def)
  show "remdups_adj (xs @ [Some ''processing'', Some ''completed'']) \<in> lifecycles"
    using remdups_adj_append_two [of xs "Some ''processing''" "Some ''completed''"] one
    by (simp add: lifecycles_def)
  show "remdups_adj (xs @ [Some ''processing'', Some ''failed'']) \<in> lifecycles"
    using remdups_adj_append_two [of xs "Some ''processing''" "Some ''failed''"] one
    by (simp add: lifecycles_def)
qed

lemma find_by_id_simps [simp]:
  "find_by_id i [] = None"
  "find_by_id i (d # ds) = (if tr_id d = i then Some d else find_by_id i ds)"
  by (simp_all add: find_by_id_def)

lemma find_by_id_snoc:
  "find_by_id i (ds @ [r]) =
     (case find_by_id i ds of None \<Rightarrow> (if tr_id r = i then Some r else None) | Some x \<Rightarrow> Some x)"
  by (simp add: find_by_id_append split: option.splits)

lemma status_of_appended:
  assumes "tr_id r \<notin> tr_id ` set ds"
  shows "map_option status (find_by_id i (ds @ [r])) =
           (if i = tr_id r then Some (status r) else map_option status (find_by_id i ds))"
proof (cases "i = tr_id r")
  case True
  then have "find_by_id i ds = None"
    using assms by (simp add: find_by_id_None)
  then show ?thesis
    using True by (simp add: find_by_id_snoc)
next
  case False
  then show ?thesis
    by (simp add: find_by_id_snoc split: option.splits)
qed

lemma status_of_inserted:
  "uuid4 e \<notin> stored_ids w \<Longrightarrow>
   status_of i (inserted e rq w) = (if i = uuid4 e then Some ''processing'' else status_of i (db w))"
  using status_of_appended [of "initial_record e rq" "tryon_results (db w)" i]
  by (simp add: status_of_def stored_ids_def)

lemma status_of_updated:
  assumes "uuid4 e \<notin> stored_ids w" and "tr_id (f (initial_record e rq)) = uuid4 e"
  shows "status_of i (updated e rq f w) =
     (if i = uuid4 e then Some (status (f (initial_record e rq))) else status_of i (db w))"
proof -
  have "tr_id (f (initial_record e rq)) \<notin> tr_id ` set (tryon_results (db w))"
    using assms by (simp add: stored_ids_def)
  from status_of_appended [OF this, of i] show ?thesis
    by (simp add: status_of_def updated_fresh [OF assms(1)] assms(2))
qed

lemma status_of_unborn: "i \<notin> stored_ids w \<Longrightarrow> status_of i (db w) = None"
  by (simp add: status_of_def stored_ids_def find_by_id_None)

lemma reachable_lifecycles:
  "reachable w \<Longrightarrow>
   db w = last (empty_database # history w) \<and> (\<forall>i. status_life i w \<in> lifecycles)"
proof (induction rule: reachable.induct)
  case start
  show ?case
    by (simp add: empty_world_def empty_database_def status_life_def status_of_def lifecycles_def)
next
  case (submit w e request)
  then have now: "db w = last (empty_database # history w)"
    and life: "\<And>i. remdups_adj (statuses i w) \<in> lifecycles"
    by (simp_all add: status_life_def statuses_def)
  note fresh = \<open>uuid4 e \<notin> stored_ids w\<close>
  have last: "last (statuses i w) = status_of i (db w)" for i
    by (simp add: statuses_def now last_map)
  have nonempty: "statuses i w \<noteq> []" for i
    by (simp add: statuses_def)
  let ?w' = "snd (generate_tryon e request w)"
  have grow: "remdups_adj (statuses i w @ map (status_of i) hs) \<in> lifecycles"
    if "hs \<in> {[inserted e request w],
               [inserted e request w, updated e request (\<lambda>d. completed_record e request img fb) w],
               [inserted e request w, updated e request (\<lambda>d. d\<lparr>status := ''failed''\<rparr>) w]}"
    for i hs img fb
  proof (cases "i = uuid4 e")
    case True
    then have "last (statuses i w) = None"
      using fresh by (simp add: last status_of_unborn)
    from life_begins [OF nonempty life this] that True show ?thesis
      by (auto simp: status_of_inserted [OF fresh] status_of_updated [OF fresh]
          completed_record_def)
  next
    case False
    then have "set (map (status_of i) hs) \<subseteq> {last (statuses i w)}"
      using that
      by (auto simp: last status_of_inserted [OF fresh] status_of_updated [OF fresh]
          completed_record_def)
    from life_repeats [OF nonempty this] life show ?thesis
      by simp
  qed
  show ?case
  proof (cases rule: generate_tryon_writes [of e request w])
    case nothing
    then show ?thesis
      using now life by (simp add: status_life_def statuses_def)
  next
    case processing
    then show ?thesis
      using grow [of "[inserted e request w]"] by (simp add: status_life_def statuses_def)
  next
    case (completed img fb)
    then show ?thesis
      using grow [of "[inserted e request w,
          updated e request (\<lambda>d. completed_record e request img fb) w]" img fb]
      by (simp add: status_life_def statuses_def)
  next
    case failed
    then show ?thesis
      using grow [of "[inserted e request w,
          updated e request (\<lambda>d. d\<lparr>status := ''failed''\<rparr>) w]"]
      by (simp add: status_life_def statuses_def)
  qed
next
  case (ping w e c)
  then have now: "db w = last (empty_database # history w)"
    and life: "\<And>i. remdups_adj (statuses i w) \<in> lifecycles"
    by (simp_all add: status_life_def statuses_def)
  have last: "last (statuses i w) = status_of i (db w)" for i
    by (simp add: statuses_def now last_map)
  have nonempty: "statuses i w \<noteq> []" for i
    by (simp add: statuses_def)
  show ?case
  proof (cases rule: create_status_check_writes [of e c w])
    case nothing
    then show ?thesis
      using now life by (simp add: status_life_def statuses_def)
  next
    case (written d)
    have "remdups_adj (statuses i w @ [status_of i d]) \<in> lifecycles" for i
    proof -
      have "status_of i d = status_of i (db w)"
        using written(3) by (simp add: status_of_def)
      then have "set [status_of i d] \<subseteq> {last (statuses i w)}"
        by (simp add: last)
      from life_repeats [OF nonempty this] life show ?thesis
        by simp
    qed
    then show ?thesis
      using written by (simp add: status_life_def statuses_def)
  qed
qed

text \<open>
  Claim C4. Over the whole write history of a reachable state, the status stored under an
  identifier is absent, then \<open>processing\<close>, then possibly one of \<open>completed\<close> and \<open>failed\<close>,
  and nothing else: it starts at \<open>processing\<close>, changes at most once, and never leaves
  \<open>completed\<close> or \<open>failed\<close>. The database is the one of the last write.
\<close>

theorem status_moves_once:
  assumes "reachable w"
  shows "db w = last (empty_database # history w)
         \<and> (status_life i w = [None]
            \<or> status_life i w = [None, Some ''processing'']
            \<or> status_life i w = [None, Some ''processing'', Some ''completed'']
            \<or> status_life i w = [None, Some ''processing'', Some ''failed''])"
  using reachable_lifecycles [OF assms] by (auto simp: lifecycles_def)

theorem status_moves_once_witness:
  "reachable after_two
   \<and> status_life ''id-1'' after_two = [None, Some ''processing'', Some ''completed'']
   \<and> status_life ''id-2'' after_two = [None, Some ''processing'', Some ''failed'']"
  using status_moves_once [OF reachable_after_two, of "''id-1''"]
  by (simp add: reachable_after_two status_life_def after_two_world status_of_def
      empty_database_def)

section \<open>Fetching the artifact\<close>

text \<open>
  Claim C6. In a reachable state, the query not failing, \<open>get_tryon_image_base64\<close> answers
  404 \<open>Try-on result not found\<close> when no record has the identifier, and 404
  \<open>Try-on image not available\<close> when the record is there but is not completed or has no
  artifact; and when it answers with an image, the record is there, is completed, and the
  image is its artifact.
\<close>

theorem artifact_lookup:
  assumes "reachable w" and "find_raises e = None"
  shows "(i \<notin> stored_ids w \<longrightarrow>
            get_tryon_image_base64 e i w = Inl (HTTPException 404 ''Try-on result not found''))
       \<and> (\<forall>r. find_by_id i (tryon_results (db w)) = Some r
                \<and> (status r \<noteq> ''completed'' \<or> tryon_image r = None) \<longrightarrow>
            get_tryon_image_base64 e i w = Inl (HTTPException 404 ''Try-on image not available''))
       \<and> (\<forall>response. get_tryon_image_base64 e i w = Inr response \<longrightarrow>
            (\<exists>r a. find_by_id i (tryon_results (db w)) = Some r \<and> tryon_image r = Some a
                   \<and> a \<noteq> [] \<and> status r = ''completed''
                   \<and> response = [(''success'', PyBool True), (''image_base64'', PyStr a),
                                  (''id'', PyStr i)]))"
proof -
  have inv: "tryon_image r \<noteq> None \<longrightarrow> status r = ''completed''"
    if "find_by_id i (tryon_results (db w)) = Some r" for r
    using reachable_artifacts [OF assms(1)] find_by_id_Some [OF that]
    by (simp add: artifact_only_if_completed_def)
  have absent: "get_tryon_image_base64 e i w = Inl (HTTPException 404 ''Try-on result not found'')"
    if "i \<notin> stored_ids w"
    using that assms(2)
    by (simp add: get_tryon_image_base64_def find_one_def stored_ids_def
        find_by_id_None [symmetric])
  have unavailable:
    "get_tryon_image_base64 e i w = Inl (HTTPException 404 ''Try-on image not available'')"
    if "find_by_id i (tryon_results (db w)) = Some r"
      and "status r \<noteq> ''completed'' \<or> tryon_image r = None" for r
    using that inv [OF that(1)] assms(2)
    by (auto simp: get_tryon_image_base64_def find_one_def)
  have available:
    "\<exists>r a. find_by_id i (tryon_results (db w)) = Some r \<and> tryon_image r = Some a
           \<and> a \<noteq> [] \<and> status r = ''completed''
           \<and> response = [(''success'', PyBool True), (''image_base64'', PyStr a),
                          (''id'', PyStr i)]"
    if "get_tryon_image_base64 e i w = Inr response" for response
  proof (cases "find_by_id i (tryon_results (db w))")
    case None
    then show ?thesis
      using that assms(2) by (simp add: get_tryon_image_base64_def find_one_def)
  next
    case (Some r)
    then show ?thesis
      using that assms(2) inv [OF Some]
      by (auto simp: get_tryon_image_base64_def find_one_def py_optional_def split: if_splits)
  qed
  from absent unavailable available show ?thesis
    by blast
qed

theorem artifact_lookup_witness:
  "reachable after_two
   \<and> get_tryon_image_base64 (sample_env ''id-3'' 3000 one_image) ''id-2'' after_two
       = Inl (HTTPException 404 ''Try-on image not available'')"
  using artifact_lookup [OF reachable_after_two, of "sample_env ''id-3'' 3000 one_image" "''id-2''"]
  by (simp add: reachable_after_two after_two_db)

section \<open>The image payloads\<close>

lemma job_result_decoded:
  assumes "base64_to_pil e (rq_user_image rq) \<noteq> None"
    and "base64_to_pil e (rq_clothing_image rq) \<noteq> None"
  shows "job_result e rq =
           (case fal_submit e ''fal-ai/flux/dev''
                   (tryon_arguments (rq_measurements rq) (rq_style rq)) of
              FalRaises msg \<Rightarrow> GenFailure msg
            | FalReturns result \<Rightarrow>
                (case first_image_url result of
                   Inr url \<Rightarrow>
                     GenSuccess url
                       (''Virtual try-on generated successfully for '' @ rq_style rq @ '' style!'')
                 | Inl msg \<Rightarrow> GenFailure msg))"
  using assms
  by (auto simp: job_result_def generate_virtual_tryon_def fal_run_def
      split: fal_outcome.splits sum.splits)

lemma other_call_env [simp]:
  "base64_to_pil (e\<lparr>uuid4 := i, utcnow := t\<rparr>) s = base64_to_pil e s"
  by (simp add: base64_to_pil_def split: list.splits)

lemma without_id_and_time_initial:
  "without_id_and_time
     (initial_record (e\<lparr>uuid4 := i, utcnow := t\<rparr>) (rq\<lparr>rq_user_image := u, rq_clothing_image := c\<rparr>))
   = without_id_and_time (initial_record e rq)"
  by (simp add: without_id_and_time_def initial_record_def TryOnResult_def)

lemma without_id_and_time_update:
  "without_id_and_time (r\<lparr>status := s\<rparr>) = (without_id_and_time r)\<lparr>status := s\<rparr>"
  "without_id_and_time (r\<lparr>tryon_image := a\<rparr>) = (without_id_and_time r)\<lparr>tryon_image := a\<rparr>"
  "without_id_and_time (r\<lparr>feedback := b\<rparr>) = (without_id_and_time r)\<lparr>feedback := b\<rparr>"
  by (simp_all add: without_id_and_time_def)

text \<open>
  Claim C10. Take two submit calls on the same state whose requests differ in the two image
  payloads only, all four payloads non-empty and decoding to images, the provider and the
  store behaving alike, each call drawing its own new identifier and time. Then both send
  the same requests to the provider, and after both, and after each of their writes, the
  collection holds the same records but for \<open>id\<close> and \<open>created_at\<close>: the payloads are
  neither forwarded nor stored.
\<close>

theorem images_neither_forwarded_nor_stored:
  assumes payloads: "rq_user_image rq \<noteq> []" "rq_clothing_image rq \<noteq> []" "u \<noteq> []" "c \<noteq> []"
    and decoded: "base64_to_pil e (rq_user_image rq) \<noteq> None"
      "base64_to_pil e (rq_clothing_image rq) \<noteq> None"
      "base64_to_pil e u \<noteq> None" "base64_to_pil e c \<noteq> None"
    and fresh: "uuid4 e \<notin> stored_ids w" "i \<notin> stored_ids w"
  shows "fal_calls (snd (generate_tryon e rq w)) =
           fal_calls (snd (generate_tryon (e\<lparr>uuid4 := i, utcnow := t\<rparr>)
              (rq\<lparr>rq_user_image := u, rq_clothing_image := c\<rparr>) w))
       \<and> map without_id_and_time (tryon_results (db (snd (generate_tryon e rq w)))) =
           map without_id_and_time
             (tryon_results (db (snd (generate_tryon (e\<lparr>uuid4 := i, utcnow := t\<rparr>)
                (rq\<lparr>rq_user_image := u, rq_clothing_image := c\<rparr>) w))))
       \<and> map (map without_id_and_time \<circ> tryon_results) (history (snd (generate_tryon e rq w))) =
           map (map without_id_and_time \<circ> tryon_results)
             (history (snd (generate_tryon (e\<lparr>uuid4 := i, utcnow := t\<rparr>)
                (rq\<lparr>rq_user_image := u, rq_clothing_image := c\<rparr>) w)))"
proof -
  let ?e' = "e\<lparr>uuid4 := i, utcnow := t\<rparr>"
  let ?rq' = "rq\<lparr>rq_user_image := u, rq_clothing_image := c\<rparr>"
  have valid: "valid_request ?rq' = valid_request rq"
    using payloads by (simp add: valid_request_def)
  have job: "job_result ?e' ?rq' = job_result e rq"
    using decoded by (simp add: job_result_decoded split: fal_outcome.splits sum.splits)
  have calls: "job_calls ?e' ?rq' = job_calls e rq"
    using decoded by (simp add: job_calls_def)
  have fresh': "uuid4 ?e' \<notin> stored_ids w"
    using fresh(2) by simp
  have ins: "map without_id_and_time (tryon_results (inserted ?e' ?rq' w)) =
               map without_id_and_time (tryon_results (inserted e rq w))"
    by (simp add: without_id_and_time_initial)
  have failed: "map without_id_and_time
                  (tryon_results (updated ?e' ?rq' (\<lambda>d. d\<lparr>status := ''failed''\<rparr>) w)) =
                map without_id_and_time
                  (tryon_results (updated e rq (\<lambda>d. d\<lparr>status := ''failed''\<rparr>) w))"
    by (simp add: updated_fresh [OF fresh(1)] updated_fresh [OF fresh']
        without_id_and_time_update without_id_and_time_initial)
  have completed: "map without_id_and_time
                  (tryon_results (updated ?e' ?rq' (\<lambda>d. completed_record ?e' ?rq' img fb) w)) =
                map without_id_and_time
                  (tryon_results (updated e rq (\<lambda>d. completed_record e rq img fb) w))" for img fb
    by (simp add: updated_fresh [OF fresh(1)] updated_fresh [OF fresh'] completed_record_def
        without_id_and_time_update without_id_and_time_initial)
  show ?thesis
  proof (cases "valid_request rq")
    case False
    then show ?thesis
      using valid by (simp add: path_invalid)
  next
    case v: True
    then have v': "valid_request ?rq'"
      using valid by simp
    show ?thesis
    proof (cases "insert_raises e")
      case (Some msg)
      then have "insert_raises ?e' = Some msg" by simp
      from path_insert_raises [OF v Some] path_insert_raises [OF v' this] show ?thesis
        by simp
    next
      case i: None
      then have i': "insert_raises ?e' = None" by simp
      show ?thesis
      proof (cases "update_raises e")
        case (Some msg)
        then have "update_raises ?e' = Some msg" by simp
        from path_update_raises [OF v i Some] path_update_raises [OF v' i' this] show ?thesis
          using calls ins by simp
      next
        case u: None
        then have u': "update_raises ?e' = None" by simp
        show ?thesis
        proof (cases "job_result e rq")
          case (GenSuccess img fb)
          then have "job_result ?e' ?rq' = GenSuccess img fb"
            using job by simp
          from path_completed [OF v i u GenSuccess] path_completed [OF v' i' u' this]
          show ?thesis
            using calls ins completed by simp
        next
          case (GenFailure err)
          then have "job_result ?e' ?rq' = GenFailure err"
            using job by simp
          from path_failed [OF v i u GenFailure] path_failed [OF v' i' u' this]
          show ?thesis
            using calls ins failed by simp
        qed
      qed
    qed
  qed
qed

theorem images_neither_forwarded_nor_stored_witness:
  "fal_calls (snd (generate_tryon (sample_env ''id-1'' 1000 one_image) sample_request empty_world))
     = fal_calls (snd (generate_tryon
         ((sample_env ''id-1'' 1000 one_image)\<lparr>uuid4 := ''id-2'', utcnow := 2000\<rparr>)
         (sample_request\<lparr>rq_user_image := other_user_image,
                         rq_clothing_image := other_clothing_image\<rparr>) empty_world))
   \<and> fal_calls (snd (generate_tryon (sample_env ''id-1'' 1000 one_image) sample_request
        empty_world))
     = [(''fal-ai/flux/dev'', tryon_arguments sample_measurements ''casual'')]"
proof -
  let ?e = "sample_env ''id-1'' 1000 one_image"
  have "rq_user_image sample_request \<noteq> []" "rq_clothing_image sample_request \<noteq> []"
    "other_user_image \<noteq> []" "other_clothing_image \<noteq> []"
    by (simp_all add: sample_request_def other_user_image_def other_clothing_image_def)
  moreover have "base64_to_pil ?e other_user_image \<noteq> None"
    "base64_to_pil ?e other_clothing_image \<noteq> None"
    by (simp_all add: sample_env_def base64_to_pil_def startswith_def other_user_image_def
        other_clothing_image_def)
  moreover have "uuid4 ?e \<notin> stored_ids empty_world" "''id-2'' \<notin> stored_ids empty_world"
    by (simp_all add: stored_ids_def empty_world_def empty_database_def)
  ultimately have "fal_calls (snd (generate_tryon ?e sample_request empty_world))
     = fal_calls (snd (generate_tryon (?e\<lparr>uuid4 := ''id-2'', utcnow := 2000\<rparr>)
         (sample_request\<lparr>rq_user_image := other_user_image,
                         rq_clothing_image := other_clothing_image\<rparr>) empty_world))"
    using images_neither_forwarded_nor_stored [of sample_request other_user_image
        other_clothing_image ?e empty_world "''id-2''" 2000] sample_decodes [of "''id-1''" 1000 one_image]
    by simp
  moreover have "fal_calls (snd (generate_tryon ?e sample_request empty_world))
     = [(''fal-ai/flux/dev'', tryon_arguments sample_measurements ''casual'')]"
    using sample_decodes [of "''id-1''" 1000 one_image]
    by (simp add: path_completed [OF sample_valid _ _ sample_job_one_image] job_calls_def
        empty_world_def) (simp add: sample_request_def)
  ultimately show ?thesis by simp
qed

end
